theory Spec2Isabelle
  imports Main "HOL-Library.Sublist"
begin

text \<open>
  A shallow embedding of the component \<^verbatim>\<open>TokenApprovalRevoker\<close> of
  \<^verbatim>\<open>src/app/page.jsx\<close>: its state, its four operations (the wallet check on mount,
  \<^verbatim>\<open>connectWallet\<close>, \<^verbatim>\<open>fetchApprovals\<close>, \<^verbatim>\<open>revokeApproval\<close>) and the two provider
  event handlers. The wallet provider, the HTTP client and the \<^verbatim>\<open>ethers\<close> library are
  parameters that give the answer to each call; everything the component does to them and
  to the user is recorded in a log, in order. Each operation is a function that runs it
  from its start to its end; \<open>reachable\<close> bounds the worlds the page can be in while
  operations overlap at their awaits.
\<close>

section \<open>JavaScript strings\<close>

text \<open>
  A JavaScript string is a sequence of UTF-16 code units. The embedding uses HOL's
  \<^typ>\<open>string\<close>, whose characters are the code units 0 to 255 (Latin-1); every
  literal of \<^verbatim>\<open>src/app/page.jsx\<close> is in that range. \<^verbatim>\<open>toLowerCase\<close> maps
  \<^verbatim>\<open>A-Z\<close> and the upper-case Latin-1 letters (\<^verbatim>\<open>U+00C0-U+00DE\<close> without the
  multiplication sign \<^verbatim>\<open>U+00D7\<close>) 32 code units up and leaves every other code unit
  of that range as it is.
\<close>

definition toLowerCase_char :: "char \<Rightarrow> char" where
  "toLowerCase_char c =
     (let n = (of_char c :: nat)
      in if (65 \<le> n \<and> n \<le> 90) \<or> (192 \<le> n \<and> n \<le> 222 \<and> n \<noteq> 215)
         then char_of (n + 32) else c)"

definition toLowerCase :: "string \<Rightarrow> string" where
  "toLowerCase s = map toLowerCase_char s"

text \<open>\<^verbatim>\<open>s.startsWith(p)\<close> and \<^verbatim>\<open>s.includes(p)\<close>.\<close>

definition startsWith :: "string \<Rightarrow> string \<Rightarrow> bool" where
  "startsWith s p = prefix p s"

fun includes_str :: "string \<Rightarrow> string \<Rightarrow> bool" where
  "includes_str [] p = (p = [])"
| "includes_str (c # cs) p = (prefix p (c # cs) \<or> includes_str cs p)"

text \<open>
  Optional chaining: \<^verbatim>\<open>x?.m(...)\<close> is \<^verbatim>\<open>undefined\<close> when the field \<open>x\<close> is absent
  or \<^verbatim>\<open>null\<close>. A field of a JSON object is \<open>None\<close> when absent or \<^verbatim>\<open>null\<close> and
  \<open>Some s\<close> when it holds the string \<open>s\<close>. \<open>truthy\<close> is the truth value JavaScript
  gives the result where a condition is expected (\<^verbatim>\<open>undefined\<close> is false).
\<close>

definition truthy :: "bool option \<Rightarrow> bool" where
  "truthy b = (case b of None \<Rightarrow> False | Some v \<Rightarrow> v)"

text \<open>A template literal renders an absent value as \<^verbatim>\<open>undefined\<close>.\<close>

definition interpolate :: "string option \<Rightarrow> string" where
  "interpolate v = (case v of None \<Rightarrow> ''undefined'' | Some s \<Rightarrow> s)"

section \<open>Regular expressions\<close>

text \<open>
  The fragment of JavaScript regular expressions that the address pattern
  \<^verbatim>\<open>/^0x[a-fA-F0-9]{40}$/\<close> is written in: a literal character, a character class given
  by its ranges, sequencing and the counted repetition \<^verbatim>\<open>r{n}\<close>. The anchors \<^verbatim>\<open>^\<close> and
  \<^verbatim>\<open>$\<close> (no \<^verbatim>\<open>m\<close> flag: start and end of the input) are part of \<open>regex_test\<close>.
\<close>

datatype regex =
    Lit char
  | Class "(char \<times> char) list"
  | Seq regex regex
  | Times regex nat

definition in_range :: "char \<Rightarrow> char \<times> char \<Rightarrow> bool" where
  "in_range c r = ((of_char (fst r) :: nat) \<le> of_char c \<and> (of_char c :: nat) \<le> of_char (snd r))"

definition in_class :: "(char \<times> char) list \<Rightarrow> char \<Rightarrow> bool" where
  "in_class rs c = list_ex (in_range c) rs"

text \<open>
  The backtracking matcher: \<open>match r s\<close> lists the rests of \<open>s\<close> after each way of
  matching \<open>r\<close> at the start of \<open>s\<close>.
\<close>

primrec iterate :: "nat \<Rightarrow> (string \<Rightarrow> string list) \<Rightarrow> string \<Rightarrow> string list" where
  "iterate 0 f s = [s]"
| "iterate (Suc n) f s = concat (map (iterate n f) (f s))"

primrec match :: "regex \<Rightarrow> string \<Rightarrow> string list" where
  "match (Lit a) s = (case s of [] \<Rightarrow> [] | c # cs \<Rightarrow> if c = a then [cs] else [])"
| "match (Class rs) s = (case s of [] \<Rightarrow> [] | c # cs \<Rightarrow> if in_class rs c then [cs] else [])"
| "match (Seq r1 r2) s = concat (map (match r2) (match r1 s))"
| "match (Times r n) s = iterate n (match r) s"

text \<open>\<^verbatim>\<open>/^r$/.test(s)\<close>: some way of matching \<open>r\<close> at the start of \<open>s\<close> uses all of \<open>s\<close>.\<close>

definition regex_test :: "regex \<Rightarrow> string \<Rightarrow> bool" where
  "regex_test r s = ([] \<in> set (match r s))"

text \<open>The strings a regular expression denotes.\<close>

primrec power_lang :: "nat \<Rightarrow> string set \<Rightarrow> string set" where
  "power_lang 0 L = {[]}"
| "power_lang (Suc n) L = {u @ v | u v. u \<in> L \<and> v \<in> power_lang n L}"

primrec lang :: "regex \<Rightarrow> string set" where
  "lang (Lit a) = {[a]}"
| "lang (Class rs) = {[c] | c. in_class rs c}"
| "lang (Seq r1 r2) = {u @ v | u v. u \<in> lang r1 \<and> v \<in> lang r2}"
| "lang (Times r n) = power_lang n (lang r)"

section \<open>Address validation\<close>

text \<open>The pattern of line 70, \<^verbatim>\<open>/^0x[a-fA-F0-9]{40}$/\<close>, without its anchors.\<close>

definition address_pattern :: regex where
  "address_pattern =
     Seq (Lit CHR ''0'')
       (Seq (Lit CHR ''x'')
          (Times (Class [(CHR ''a'', CHR ''f''), (CHR ''A'', CHR ''F''), (CHR ''0'', CHR ''9'')]) 40))"

text \<open>
  The guard of \<^verbatim>\<open>fetchApprovals\<close>:
  \<^verbatim>\<open>if (!address || !/^0x[a-fA-F0-9]{40}$/.test(address)) { alert(...); return }\<close>.
  \<open>invalidAddress\<close> is the condition of the \<^verbatim>\<open>if\<close>; the empty string is the only falsy
  string.
\<close>

definition invalidAddress :: "string \<Rightarrow> bool" where
  "invalidAddress a = (a = [] \<or> \<not> regex_test address_pattern a)"

definition isHexDigit :: "char \<Rightarrow> bool" where
  "isHexDigit c = (c \<in> set ''0123456789abcdefABCDEF'')"

section \<open>Data model\<close>

text \<open>
  A record of the \<^verbatim>\<open>result\<close> array of the block explorer's \<^verbatim>\<open>tokentx\<close> answer, with
  the fields that \<^verbatim>\<open>fetchApprovals\<close> reads. The API sends every field as a string; a
  field is \<open>None\<close> when it is absent or \<^verbatim>\<open>null\<close>.
\<close>

record tx_record =
  tx_input :: "string option"
  tx_functionName :: "string option"
  tx_from :: "string option"
  tx_to :: "string option"
  tx_tokenSymbol :: "string option"
  tx_value :: "string option"
  tx_contractAddress :: "string option"
  tx_hash :: "string option"
  tx_timeStamp :: "string option"

text \<open>The formatted approval record of lines 105 to 112.\<close>

record approval =
  tokenSymbol :: string
  ap_to :: "string option"
  ap_value :: "string option"
  contractAddress :: "string option"
  txHash :: "string option"
  timestamp :: "string option"

text \<open>A thrown value: an \<^verbatim>\<open>Error\<close> object, of which the program reads the message only.\<close>

datatype js_error = Error (message: string)

text \<open>
  \<^verbatim>\<open>response.data\<close>. Its \<^verbatim>\<open>result\<close> is an array of records, or some other value (on an
  API error the block explorer sends a string); calling \<^verbatim>\<open>.filter\<close> on the latter raises
  the \<^verbatim>\<open>TypeError\<close> that \<open>ResultOther\<close> carries.
\<close>

datatype api_result = ResultArray "tx_record list" | ResultOther js_error

record api_response =
  res_status :: "string option"
  res_message :: "string option"
  res_result :: api_result

text \<open>The component state of lines 7 to 11.\<close>

record state =
  address :: string
  approvals :: "approval list"
  loading :: bool
  isWalletConnected :: bool
  currentChain :: "string option"

definition initial_state :: state where
  "initial_state =
     \<lparr>address = [], approvals = [], loading = False, isWalletConnected = False,
      currentChain = None\<rparr>"

text \<open>
  The collaborators of the component, as the answers they give: the injected wallet
  provider (\<^verbatim>\<open>window.ethereum\<close>, absent or present, and its \<^verbatim>\<open>request\<close> method), the
  API key of the build environment, the HTTP client, and the \<^verbatim>\<open>ethers\<close> library
  (provider and contract constructors, the signer's address, the two contract methods and
  the wait for a confirmation). \<open>Inl e\<close> is a call that throws or a promise that rejects
  with \<open>e\<close>.
\<close>

record env =
  ethereum :: bool
  eth_accounts :: "js_error + string list"
  eth_requestAccounts :: "js_error + string list"
  eth_chainId :: "js_error + string"
  ETHERSCAN_KEY :: "string option"
  axios_get :: "string \<Rightarrow> js_error + api_response"
  new_Web3Provider :: "js_error + unit"
  new_Contract :: "string option \<Rightarrow> js_error + unit"
  getAddress :: "js_error + string"
  allowance :: "string option \<Rightarrow> string \<Rightarrow> string option \<Rightarrow> js_error + nat"
  approve :: "string option \<Rightarrow> string option \<Rightarrow> nat \<Rightarrow> js_error + string"
  tx_wait :: "string \<Rightarrow> js_error + unit"

text \<open>
  What the component does to the outside and to its own state, in the order in which it
  does it. \<open>CallAllowance c owner spender\<close> is the read \<^verbatim>\<open>allowance(owner, spender)\<close>
  on the token contract at \<open>c\<close>; \<open>CallApprove c spender n\<close> is the transaction
  \<^verbatim>\<open>approve(spender, n)\<close> submitted to it; \<open>TxWait h\<close> is the wait for the confirmation
  of the transaction with hash \<open>h\<close>.
\<close>

datatype event =
    Alert string
  | ConsoleError string js_error
  | EthRequest string
  | HttpGet string
  | NewWeb3Provider
  | GetSigner
  | NewContract "string option"
  | GetAddress
  | CallAllowance "string option" string "string option"
  | CallApprove "string option" "string option" nat
  | TxWait string
  | Reload
  | SetAddress string
  | SetApprovals "approval list"
  | SetLoading bool
  | SetIsWalletConnected bool
  | SetCurrentChain string

record world =
  ui :: state
  log :: "event list"

definition initial_world :: world where
  "initial_world = \<lparr>ui = initial_state, log = []\<rparr>"

definition emit :: "event \<Rightarrow> world \<Rightarrow> world" where
  "emit e w = w\<lparr>log := log w @ [e]\<rparr>"

definition alert :: "string \<Rightarrow> world \<Rightarrow> world" where
  "alert m w = emit (Alert m) w"

definition console_error :: "string \<Rightarrow> js_error \<Rightarrow> world \<Rightarrow> world" where
  "console_error label e w = emit (ConsoleError label e) w"

definition setAddress :: "string \<Rightarrow> world \<Rightarrow> world" where
  "setAddress a w = emit (SetAddress a) (w\<lparr>ui := (ui w)\<lparr>address := a\<rparr>\<rparr>)"

definition setApprovals :: "approval list \<Rightarrow> world \<Rightarrow> world" where
  "setApprovals as w = emit (SetApprovals as) (w\<lparr>ui := (ui w)\<lparr>approvals := as\<rparr>\<rparr>)"

definition setLoading :: "bool \<Rightarrow> world \<Rightarrow> world" where
  "setLoading b w = emit (SetLoading b) (w\<lparr>ui := (ui w)\<lparr>loading := b\<rparr>\<rparr>)"

definition setIsWalletConnected :: "bool \<Rightarrow> world \<Rightarrow> world" where
  "setIsWalletConnected b w =
     emit (SetIsWalletConnected b) (w\<lparr>ui := (ui w)\<lparr>isWalletConnected := b\<rparr>\<rparr>)"

definition setCurrentChain :: "string \<Rightarrow> world \<Rightarrow> world" where
  "setCurrentChain c w =
     emit (SetCurrentChain c) (w\<lparr>ui := (ui w)\<lparr>currentChain := Some c\<rparr>\<rparr>)"

text \<open>Projections of a log.\<close>

fun alerts :: "event list \<Rightarrow> string list" where
  "alerts [] = []"
| "alerts (Alert m # es) = m # alerts es"
| "alerts (e # es) = alerts es"

fun http_gets :: "event list \<Rightarrow> string list" where
  "http_gets [] = []"
| "http_gets (HttpGet u # es) = u # http_gets es"
| "http_gets (e # es) = http_gets es"

fun isChainCall :: "event \<Rightarrow> bool" where
  "isChainCall (NewWeb3Provider) = True"
| "isChainCall (GetSigner) = True"
| "isChainCall (NewContract c) = True"
| "isChainCall (GetAddress) = True"
| "isChainCall (CallAllowance c owner spender) = True"
| "isChainCall (CallApprove c spender n) = True"
| "isChainCall (TxWait h) = True"
| "isChainCall e = False"

fun isTransaction :: "event \<Rightarrow> bool" where
  "isTransaction (CallApprove c spender n) = True"
| "isTransaction e = False"

fun isAllowanceRead :: "event \<Rightarrow> bool" where
  "isAllowanceRead (CallAllowance c owner spender) = True"
| "isAllowanceRead e = False"

fun isConfirmationWait :: "event \<Rightarrow> bool" where
  "isConfirmationWait (TxWait h) = True"
| "isConfirmationWait e = False"

section \<open>Wallet connection\<close>

text \<open>
  Each operation is its \<^verbatim>\<open>try\<close> block, a function that returns \<open>Inl e\<close> where the block
  throws \<open>e\<close>, and the operation itself, which adds the \<^verbatim>\<open>catch\<close> and \<^verbatim>\<open>finally\<close> blocks.
\<close>

definition checkWalletConnection_try :: "env \<Rightarrow> world \<Rightarrow> (js_error + unit) \<times> world" where
  "checkWalletConnection_try env w =
     (let w1 = emit (EthRequest ''eth_accounts'') w in
      case eth_accounts env of
        Inl e \<Rightarrow> (Inl e, w1)
      | Inr accounts \<Rightarrow>
          let w2 = setIsWalletConnected (length accounts > 0) w1;
              w3 = emit (EthRequest ''eth_chainId'') w2 in
          (case eth_chainId env of
             Inl e \<Rightarrow> (Inl e, w3)
           | Inr chainId \<Rightarrow> (Inr (), setCurrentChain chainId w3)))"

definition checkWalletConnection :: "env \<Rightarrow> world \<Rightarrow> world" where
  "checkWalletConnection env w =
     (if ethereum env then
        (case checkWalletConnection_try env w of
           (Inl e, w') \<Rightarrow> console_error ''Wallet connection check failed:'' e w'
         | (Inr u, w') \<Rightarrow> w')
      else w)"

definition connectWallet_try :: "env \<Rightarrow> world \<Rightarrow> (js_error + unit) \<times> world" where
  "connectWallet_try env w =
     (if \<not> ethereum env then (Inl (Error ''MetaMask not installed''), w)
      else
        let w1 = emit (EthRequest ''eth_requestAccounts'') w in
        case eth_requestAccounts env of
          Inl e \<Rightarrow> (Inl e, w1)
        | Inr accounts \<Rightarrow>
            let w2 = setIsWalletConnected (length accounts > 0) w1;
                w3 = emit (EthRequest ''eth_chainId'') w2 in
            (case eth_chainId env of
               Inl e \<Rightarrow> (Inl e, w3)
             | Inr chainId \<Rightarrow> (Inr (), setCurrentChain chainId w3)))"

definition connectWallet :: "env \<Rightarrow> world \<Rightarrow> world" where
  "connectWallet env w =
     (case connectWallet_try env w of
        (Inl e, w') \<Rightarrow>
          alert (''Wallet connection failed: '' @ message e)
            (console_error ''Wallet connection failed:'' e w')
      | (Inr u, w') \<Rightarrow> w')"

text \<open>The provider's event listeners of lines 33 to 40; a reload starts the page afresh.\<close>

definition accountsChanged :: "string list \<Rightarrow> world \<Rightarrow> world" where
  "accountsChanged accounts w = setIsWalletConnected (length accounts > 0) w"

definition chainChanged :: "string \<Rightarrow> world \<Rightarrow> world" where
  "chainChanged chainId w = (emit Reload (setCurrentChain chainId w))\<lparr>ui := initial_state\<rparr>"

section \<open>Fetching approvals\<close>

text \<open>\<^verbatim>\<open>x || d\<close> for a field \<open>x\<close>: \<^verbatim>\<open>undefined\<close>, \<^verbatim>\<open>null\<close> and the empty string are falsy.\<close>

definition or_else :: "string option \<Rightarrow> string \<Rightarrow> string" where
  "or_else x d = (case x of None \<Rightarrow> d | Some s \<Rightarrow> if s = [] then d else s)"

definition etherscan_url :: "string option \<Rightarrow> string \<Rightarrow> string" where
  "etherscan_url key addr =
     ''https://api.etherscan.io/api?module=account&action=tokentx&address='' @ addr
       @ ''&page=1&offset=100&apikey='' @ interpolate key"

text \<open>The callback of \<^verbatim>\<open>filter\<close>, lines 88 to 102; \<open>addr\<close> is the queried address.\<close>

definition isApprovalTx :: "string \<Rightarrow> tx_record \<Rightarrow> bool" where
  "isApprovalTx addr tx =
     (let isApprovalCall = map_option (\<lambda>i. startsWith i ''0x095ea7b3'') (tx_input tx);
          hasApproveInName =
            map_option (\<lambda>f. includes_str (toLowerCase f) ''approve'') (tx_functionName tx);
          isApprovalEvent = (tx_from tx = Some ''0x0000000000000000000000000000000000000000'');
          isNotSelfApproval = (map_option toLowerCase (tx_to tx) \<noteq> Some (toLowerCase addr))
      in (truthy isApprovalCall \<or> truthy hasApproveInName \<or> isApprovalEvent)
           \<and> isNotSelfApproval)"

text \<open>The callback of \<^verbatim>\<open>map\<close>, lines 105 to 112.\<close>

definition formatApproval :: "tx_record \<Rightarrow> approval" where
  "formatApproval tx =
     \<lparr>tokenSymbol = or_else (tx_tokenSymbol tx) ''Unknown'',
      ap_to = tx_to tx,
      ap_value = tx_value tx,
      contractAddress = tx_contractAddress tx,
      txHash = tx_hash tx,
      timestamp = tx_timeStamp tx\<rparr>"

definition fetchApprovals_try :: "env \<Rightarrow> string \<Rightarrow> world \<Rightarrow> (js_error + unit) \<times> world" where
  "fetchApprovals_try env addr w =
     (let url = etherscan_url (ETHERSCAN_KEY env) addr;
          w1 = emit (HttpGet url) w in
      case axios_get env url of
        Inl e \<Rightarrow> (Inl e, w1)
      | Inr response \<Rightarrow>
          if res_status response \<noteq> Some ''1''
          then (Inl (Error (or_else (res_message response) ''Etherscan API error'')), w1)
          else
            (case res_result response of
               ResultOther e \<Rightarrow> (Inl e, w1)
             | ResultArray txs \<Rightarrow>
                 let approvalTxs = filter (isApprovalTx addr) txs;
                     formattedApprovals = map formatApproval approvalTxs
                 in (Inr (), setApprovals formattedApprovals w1)))"

definition fetchApprovals :: "env \<Rightarrow> world \<Rightarrow> world" where
  "fetchApprovals env w =
     (if invalidAddress (address (ui w))
      then alert ''Please enter a valid Ethereum address (0x...)'' w
      else
        let w1 = setLoading True w;
            w2 = setApprovals [] w1;
            w3 = (case fetchApprovals_try env (address (ui w)) w2 of
                    (Inl e, w') \<Rightarrow>
                      alert (''Error: '' @ message e) (console_error ''Fetch error:'' e w')
                  | (Inr u, w') \<Rightarrow> w')
        in setLoading False w3)"

section \<open>Revoking an approval\<close>

definition revokeApproval_try :: "env \<Rightarrow> approval \<Rightarrow> world \<Rightarrow> (js_error + unit) \<times> world" where
  "revokeApproval_try env ap w =
     (if \<not> ethereum env then (Inl (Error ''MetaMask not installed''), w)
      else if \<not> isWalletConnected (ui w)
      then (Inl (Error ''Please connect your wallet first''), w)
      else
        let w1 = emit NewWeb3Provider w in
        (case new_Web3Provider env of
          Inl e \<Rightarrow> (Inl e, w1)
        | Inr provider \<Rightarrow>
        (let w2 = emit GetSigner w1;
             w3 = emit (NewContract (contractAddress ap)) w2 in
        (case new_Contract env (contractAddress ap) of
          Inl e \<Rightarrow> (Inl e, w3)
        | Inr tokenContract \<Rightarrow>
        (let w4 = emit GetAddress w3 in
        (case getAddress env of
          Inl e \<Rightarrow> (Inl e, w4)
        | Inr owner \<Rightarrow>
        (let w5 = emit (CallAllowance (contractAddress ap) owner (ap_to ap)) w4 in
        (case allowance env (contractAddress ap) owner (ap_to ap) of
          Inl e \<Rightarrow> (Inl e, w5)
        | Inr currentAllowance \<Rightarrow>
        (if currentAllowance = 0 then (Inl (Error ''No active approval found''), w5)
         else
        (let w6 = emit (CallApprove (contractAddress ap) (ap_to ap) 0) w5 in
        (case approve env (contractAddress ap) (ap_to ap) 0 of
          Inl e \<Rightarrow> (Inl e, w6)
        | Inr hash \<Rightarrow>
        (let w7 = emit (TxWait hash) w6 in
        (case tx_wait env hash of
          Inl e \<Rightarrow> (Inl e, w7)
        | Inr receipt \<Rightarrow>
        (let w8 = alert (''Success! Approval revoked in transaction: '' @ hash) w7
         in (Inr (), fetchApprovals env w8)))))))))))))))"

definition revokeApproval :: "env \<Rightarrow> approval \<Rightarrow> world \<Rightarrow> world" where
  "revokeApproval env ap w =
     (case revokeApproval_try env ap w of
        (Inl e, w') \<Rightarrow>
          alert (''Revoke failed: '' @ message e) (console_error ''Revoke failed:'' e w')
      | (Inr u, w') \<Rightarrow> w')"

section \<open>The component over time\<close>

text \<open>
  Every \<^verbatim>\<open>await\<close> gives way to the other handlers, so the operations of the page overlap
  at their awaits: while a request is pending the user can type, click, or the provider
  can raise an event. Whatever the overlap, the state changes only where the source calls
  a setter, with an argument of one of its call sites, or reloads the page, and the log
  only grows. \<open>reachable\<close> is that upper bound on the worlds of the page: the initial
  world, closed under every setter call the source makes and every logged effect.
    \<^item> \<^verbatim>\<open>setAddress\<close>: line 197, any input text;
    \<^item> \<^verbatim>\<open>setIsWalletConnected\<close>: lines 19, 34 and 58;
    \<^item> \<^verbatim>\<open>setCurrentChain\<close>: lines 22, 38 and 61, and the reload of line 39;
    \<^item> \<^verbatim>\<open>setLoading\<close>: lines 75 and 120;
    \<^item> \<^verbatim>\<open>setApprovals\<close>: line 76 with the empty list, line 114 with the filtered
      and formatted records of an API answer.
\<close>

inductive reachable :: "world \<Rightarrow> bool" where
  r_init: "reachable initial_world"
| r_effect: "reachable w \<Longrightarrow> reachable (emit e w)"
| r_typing: "reachable w \<Longrightarrow> reachable (setAddress a w)"
| r_connected: "reachable w \<Longrightarrow> reachable (setIsWalletConnected b w)"
| r_chain: "reachable w \<Longrightarrow> reachable (setCurrentChain chainId w)"
| r_reload: "reachable w \<Longrightarrow> reachable (chainChanged chainId w)"
| r_loading: "reachable w \<Longrightarrow> reachable (setLoading b w)"
| r_clear: "reachable w \<Longrightarrow> reachable (setApprovals [] w)"
| r_listed:
    "reachable w \<Longrightarrow>
       reachable (setApprovals (map formatApproval (filter (isApprovalTx addr) txs)) w)"

text \<open>The invariant of the approvals list: no entry has an empty token symbol.\<close>

definition inv_symbols :: "world \<Rightarrow> bool" where
  "inv_symbols w = (\<forall>a\<in>set (approvals (ui w)). tokenSymbol a \<noteq> [])"

section \<open>The approval filter in words\<close>

text \<open>
  The three signs of an approval: the input starts with the selector of
  \<^verbatim>\<open>approve(address,uint256)\<close>, the function name contains \<^verbatim>\<open>approve\<close> in any mix of
  upper and lower case, or the sender is the zero address. An absent field shows no sign.
\<close>

definition looks_like_approval :: "tx_record \<Rightarrow> bool" where
  "looks_like_approval tx =
     ((case tx_input tx of None \<Rightarrow> False | Some i \<Rightarrow> prefix ''0x095ea7b3'' i)
      \<or> (case tx_functionName tx of None \<Rightarrow> False
          | Some f \<Rightarrow> sublist ''approve'' (toLowerCase f))
      \<or> tx_from tx = Some ''0x0000000000000000000000000000000000000000'')"

text \<open>
  Two hexadecimal strings spell the same address when they agree up to the case of their
  letters. The filter in words: a sign of an approval, and a \<^verbatim>\<open>to\<close> address that
  differs from the queried address. An absent \<^verbatim>\<open>to\<close> field differs from every address.
\<close>

definition approval_filter_nocase :: "string \<Rightarrow> tx_record \<Rightarrow> bool" where
  "approval_filter_nocase addr tx =
     (looks_like_approval tx
      \<and> (case tx_to tx of None \<Rightarrow> True | Some t \<Rightarrow> toLowerCase t \<noteq> toLowerCase addr))"

section \<open>Example inputs\<close>

text \<open>
  Two spellings of one address, some records of an API answer, and collaborators that
  answer (\<open>ex_env\<close>), that fail on every call (\<open>ex_env_down\<close>) and that report an
  allowance of zero (\<open>ex_env_zero\<close>).
\<close>

definition ex_addr_upper :: string where
  "ex_addr_upper = ''0xAAAAAAAAAAAAAAAAAAAAAAAAAAAAAAAAAAAAAAAA''"

definition ex_addr_lower :: string where
  "ex_addr_lower = ''0xaaaaaaaaaaaaaaaaaaaaaaaaaaaaaaaaaaaaaaaa''"

definition ex_spender :: string where
  "ex_spender = ''0x1111111111111111111111111111111111111111''"

definition ex_token :: string where
  "ex_token = ''0x6b175474e89094c44da98b954eedeac495271d0f''"

definition ex_tx_blank :: tx_record where
  "ex_tx_blank =
     \<lparr>tx_input = None, tx_functionName = None, tx_from = None, tx_to = None,
      tx_tokenSymbol = None, tx_value = None, tx_contractAddress = None, tx_hash = None,
      tx_timeStamp = None\<rparr>"

definition ex_tx_approve :: tx_record where
  "ex_tx_approve =
     ex_tx_blank\<lparr>tx_input := Some ''0x095ea7b3000000000000000000000000'',
       tx_functionName := Some ''approve(address spender, uint256 amount)'',
       tx_from := Some ex_addr_lower, tx_to := Some ex_spender,
       tx_tokenSymbol := Some ''DAI'', tx_value := Some ''1000'',
       tx_contractAddress := Some ex_token, tx_hash := Some ''0xabc1'',
       tx_timeStamp := Some ''1700000000''\<rparr>"

definition ex_tx_transfer :: tx_record where
  "ex_tx_transfer =
     ex_tx_blank\<lparr>tx_input := Some ''deprecated'',
       tx_functionName := Some ''transfer(address to, uint256 value)'',
       tx_from := Some ex_addr_lower, tx_to := Some ex_spender,
       tx_tokenSymbol := Some ''DAI'', tx_contractAddress := Some ex_token,
       tx_hash := Some ''0xabc2''\<rparr>"

definition ex_tx_mint :: tx_record where
  "ex_tx_mint =
     ex_tx_blank\<lparr>tx_from := Some ''0x0000000000000000000000000000000000000000'',
       tx_to := Some ex_spender, tx_tokenSymbol := Some [],
       tx_contractAddress := Some ex_token, tx_hash := Some ''0xabc3''\<rparr>"

definition ex_tx_self :: tx_record where
  "ex_tx_self =
     ex_tx_blank\<lparr>tx_input := Some ''0x095ea7b3'', tx_to := Some ex_addr_lower\<rparr>"

definition ex_response :: api_response where
  "ex_response =
     \<lparr>res_status = Some ''1'', res_message = Some ''OK'',
      res_result = ResultArray [ex_tx_approve, ex_tx_transfer, ex_tx_mint]\<rparr>"

definition ex_env :: env where
  "ex_env =
     \<lparr>ethereum = True,
      eth_accounts = Inr [ex_addr_lower],
      eth_requestAccounts = Inr [ex_addr_lower],
      eth_chainId = Inr ''0x1'',
      ETHERSCAN_KEY = Some ''KEY'',
      axios_get = (\<lambda>url. Inr ex_response),
      new_Web3Provider = Inr (),
      new_Contract = (\<lambda>c. Inr ()),
      getAddress = Inr ex_addr_lower,
      allowance = (\<lambda>c owner spender. Inr 1000),
      approve = (\<lambda>c spender n. Inr ''0xdef1''),
      tx_wait = (\<lambda>h. Inr ())\<rparr>"

definition ex_env_zero :: env where
  "ex_env_zero = ex_env\<lparr>allowance := (\<lambda>c owner spender. Inr 0)\<rparr>"

text \<open>
  Collaborators that fail at one step of a revocation each: the provider constructor
  refuses the injected object, the contract constructor refuses a record without a
  contract address, the wallet gives no signer address, the user rejects the transaction
  in the wallet.
\<close>

definition ex_env_no_provider :: env where
  "ex_env_no_provider = ex_env\<lparr>new_Web3Provider := Inl (Error ''unsupported provider'')\<rparr>"

definition ex_response_bare :: api_response where
  "ex_response_bare =
     \<lparr>res_status = Some ''1'', res_message = Some ''OK'',
      res_result = ResultArray [ex_tx_mint\<lparr>tx_contractAddress := None\<rparr>]\<rparr>"

definition ex_env_strict :: env where
  "ex_env_strict =
     ex_env\<lparr>axios_get := (\<lambda>url. Inr ex_response_bare),
       new_Contract :=
         (\<lambda>c. case c of None \<Rightarrow> Inl (Error ''invalid contract address or ENS name'')
               | Some a \<Rightarrow> Inr ())\<rparr>"

definition ex_env_no_signer :: env where
  "ex_env_no_signer = ex_env\<lparr>getAddress := Inl (Error ''unknown account #0'')\<rparr>"

definition ex_env_rejected :: env where
  "ex_env_rejected =
     ex_env\<lparr>approve := (\<lambda>c spender n. Inl (Error ''user rejected transaction''))\<rparr>"

definition ex_env_down :: env where
  "ex_env_down =
     \<lparr>ethereum = True,
      eth_accounts = Inl (Error ''provider unavailable''),
      eth_requestAccounts = Inl (Error ''User rejected the request.''),
      eth_chainId = Inl (Error ''provider unavailable''),
      ETHERSCAN_KEY = None,
      axios_get = (\<lambda>url. Inl (Error ''Network Error'')),
      new_Web3Provider = Inl (Error ''unsupported provider''),
      new_Contract = (\<lambda>c. Inl (Error ''invalid contract address or ENS name'')),
      getAddress = Inl (Error ''unknown account #0''),
      allowance = (\<lambda>c owner spender. Inl (Error ''call revert exception'')),
      approve = (\<lambda>c spender n. Inl (Error ''user rejected transaction'')),
      tx_wait = (\<lambda>h. Inl (Error ''transaction failed''))\<rparr>"

definition ex_approval :: approval where
  "ex_approval = formatApproval ex_tx_approve"

definition ex_approval_bare :: approval where
  "ex_approval_bare = formatApproval (ex_tx_mint\<lparr>tx_contractAddress := None\<rparr>)"

text \<open>The page after the user typed an address, with the wallet connected or not.\<close>

definition ex_world :: world where
  "ex_world = setAddress ex_addr_lower initial_world"

definition ex_world_connected :: world where
  "ex_world_connected = setIsWalletConnected True ex_world"

definition ex_world_typo :: world where
  "ex_world_typo = setAddress ''0x123'' initial_world"

text \<open>
  Where the record at index \<open>i\<close> of the API's array lands in the filtered array: after the
  records before it that pass the filter.
\<close>

definition approval_index :: "string \<Rightarrow> tx_record list \<Rightarrow> nat \<Rightarrow> nat" where
  "approval_index addr txs i = length (filter (isApprovalTx addr) (take i txs))"

text \<open>The page after a successful fetch: its approvals list has two entries.\<close>

definition ex_world_listed :: world where
  "ex_world_listed = fetchApprovals ex_env ex_world"

definition ex_world_listed_connected :: world where
  "ex_world_listed_connected = fetchApprovals ex_env ex_world_connected"

text \<open>The page after a fetch that listed a record without a contract address.\<close>

definition ex_world_bare_connected :: world where
  "ex_world_bare_connected = fetchApprovals ex_env_strict ex_world_connected"

section \<open>The matcher and the language of a pattern\<close>

lemma iterate_power_lang:
  assumes "\<And>s. set (f s) = {v. \<exists>u\<in>L. s = u @ v}"
  shows "set (iterate n f s) = {v. \<exists>u\<in>power_lang n L. s = u @ v}"
proof (induction n arbitrary: s)
  case 0
  show ?case by auto
next
  case (Suc n)
  show ?case
  proof (intro set_eqI iffI)
    fix v assume "v \<in> set (iterate (Suc n) f s)"
    then obtain t where t: "t \<in> set (f s)" and v: "v \<in> set (iterate n f t)" by auto
    from t assms obtain u where u: "u \<in> L" "s = u @ t" by auto
    from v Suc.IH obtain w where w: "w \<in> power_lang n L" "t = w @ v" by auto
    from u w have "u @ w \<in> power_lang (Suc n) L" "s = (u @ w) @ v" by auto
    then show "v \<in> {v. \<exists>u\<in>power_lang (Suc n) L. s = u @ v}" by blast
  next
    fix v assume "v \<in> {v. \<exists>u\<in>power_lang (Suc n) L. s = u @ v}"
    then obtain u w where uw: "u \<in> L" "w \<in> power_lang n L" "s = (u @ w) @ v" by auto
    then have "w @ v \<in> set (f s)" using assms by auto
    moreover have "v \<in> set (iterate n f (w @ v))" using Suc.IH uw(2) by auto
    ultimately show "v \<in> set (iterate (Suc n) f s)" by auto
  qed
qed

lemma match_lang: "set (match r s) = {v. \<exists>u\<in>lang r. s = u @ v}"
proof (induction r arbitrary: s)
  case (Lit a)
  show ?case by (cases s) auto
next
  case (Class rs)
  show ?case by (cases s) auto
next
  case (Seq r1 r2)
  show ?case
  proof (intro set_eqI iffI)
    fix v assume "v \<in> set (match (Seq r1 r2) s)"
    then obtain t where t: "t \<in> set (match r1 s)" and v: "v \<in> set (match r2 t)" by auto
    from t Seq.IH(1) obtain u where u: "u \<in> lang r1" "s = u @ t" by auto
    from v Seq.IH(2) obtain w where w: "w \<in> lang r2" "t = w @ v" by auto
    from u w have "u @ w \<in> lang (Seq r1 r2)" "s = (u @ w) @ v" by auto
    then show "v \<in> {v. \<exists>u\<in>lang (Seq r1 r2). s = u @ v}" by blast
  next
    fix v assume "v \<in> {v. \<exists>u\<in>lang (Seq r1 r2). s = u @ v}"
    then obtain u w where uw: "u \<in> lang r1" "w \<in> lang r2" "s = (u @ w) @ v" by auto
    then have "w @ v \<in> set (match r1 s)" using Seq.IH(1) by auto
    moreover have "v \<in> set (match r2 (w @ v))" using Seq.IH(2) uw(2) by auto
    ultimately show "v \<in> set (match (Seq r1 r2) s)" by auto
  qed
next
  case (Times r n)
  show ?case using iterate_power_lang [of "match r" "lang r" n s] Times.IH by simp
qed

lemma regex_test_lang: "regex_test r s \<longleftrightarrow> s \<in> lang r"
  by (auto simp: regex_test_def match_lang)

lemma hex_class:
  "in_class [(CHR ''a'', CHR ''f''), (CHR ''A'', CHR ''F''), (CHR ''0'', CHR ''9'')] c = isHexDigit c"
proof -
  have eq: "c = d \<longleftrightarrow> (of_char c :: nat) = of_char d" for d
    by simp
  show ?thesis
    unfolding in_class_def in_range_def isHexDigit_def
    by (simp add: eq) arith
qed

lemma power_lang_singletons:
  "power_lang n {[c] | c. P c} = {w. length w = n \<and> (\<forall>c\<in>set w. P c)}"
proof (induction n)
  case 0
  show ?case by auto
next
  case (Suc n)
  show ?case
  proof (intro set_eqI iffI)
    fix w assume "w \<in> power_lang (Suc n) {[c] |c. P c}"
    then show "w \<in> {w. length w = Suc n \<and> (\<forall>c\<in>set w. P c)}"
      using Suc.IH by auto
  next
    fix w assume "w \<in> {w. length w = Suc n \<and> (\<forall>c\<in>set w. P c)}"
    then obtain c v where "w = c # v" "P c" "length v = n" "\<forall>c\<in>set v. P c"
      by (cases w) auto
    then have "w = [c] @ v" "[c] \<in> {[c] |c. P c}" "v \<in> power_lang n {[c] |c. P c}"
      using Suc.IH by auto
    then show "w \<in> power_lang (Suc n) {[c] |c. P c}"
      unfolding power_lang.simps by blast
  qed
qed

lemma lang_address_pattern:
  "lang address_pattern = {''0x'' @ h | h. length h = 40 \<and> (\<forall>c\<in>set h. isHexDigit c)}"
  by (auto simp: address_pattern_def hex_class power_lang_singletons)

lemma invalidAddress_lang: "invalidAddress s \<longleftrightarrow> s \<notin> lang address_pattern"
proof -
  have "[] \<notin> lang address_pattern"
    by (simp add: lang_address_pattern)
  then show ?thesis
    by (auto simp: invalidAddress_def regex_test_lang)
qed

section \<open>The paths of fetchApprovals\<close>

lemmas world_defs = emit_def alert_def console_error_def setAddress_def setApprovals_def
  setLoading_def setIsWalletConnected_def setCurrentChain_def

lemma alerts_append: "alerts (xs @ ys) = alerts xs @ alerts ys"
  by (induction xs rule: alerts.induct) auto

lemma http_gets_append: "http_gets (xs @ ys) = http_gets xs @ http_gets ys"
  by (induction xs rule: http_gets.induct) auto

lemma fetchApprovals_try_Inl:
  assumes "fetchApprovals_try env addr w = (Inl e, w')"
  shows "w' = emit (HttpGet (etherscan_url (ETHERSCAN_KEY env) addr)) w"
  using assms
  by (auto simp: fetchApprovals_try_def Let_def split: sum.splits if_splits api_result.splits)

lemma fetchApprovals_try_Inr:
  assumes "fetchApprovals_try env addr w = (Inr u, w')"
  shows "\<exists>response txs.
           axios_get env (etherscan_url (ETHERSCAN_KEY env) addr) = Inr response \<and>
           res_status response = Some ''1'' \<and> res_result response = ResultArray txs \<and>
           w' = setApprovals (map formatApproval (filter (isApprovalTx addr) txs))
                  (emit (HttpGet (etherscan_url (ETHERSCAN_KEY env) addr)) w)"
  using assms
  by (auto simp: fetchApprovals_try_def Let_def split: sum.splits if_splits api_result.splits)

lemma fetchApprovals_try_success:
  assumes "axios_get env (etherscan_url (ETHERSCAN_KEY env) addr) = Inr response"
    and "res_status response = Some ''1''" and "res_result response = ResultArray txs"
  shows "fetchApprovals_try env addr w =
           (Inr (), setApprovals (map formatApproval (filter (isApprovalTx addr) txs))
                  (emit (HttpGet (etherscan_url (ETHERSCAN_KEY env) addr)) w))"
  using assms by (simp add: fetchApprovals_try_def Let_def)

lemma fetchApprovals_invalid:
  "invalidAddress (address (ui w)) \<Longrightarrow>
     fetchApprovals env w = alert ''Please enter a valid Ethereum address (0x...)'' w"
  by (simp add: fetchApprovals_def)

lemma fetchApprovals_failure:
  assumes "\<not> invalidAddress (address (ui w))"
    and "fetchApprovals_try env (address (ui w)) (setApprovals [] (setLoading True w)) = (Inl e, w')"
  shows "fetchApprovals env w =
           w\<lparr>ui := (ui w)\<lparr>approvals := [], loading := False\<rparr>,
             log := log w @ [SetLoading True, SetApprovals [],
                      HttpGet (etherscan_url (ETHERSCAN_KEY env) (address (ui w))),
                      ConsoleError ''Fetch error:'' e, Alert (''Error: '' @ message e),
                      SetLoading False]\<rparr>"
  using assms(1) fetchApprovals_try_Inl [OF assms(2)] assms(2)
  by (simp add: fetchApprovals_def Let_def world_defs)

lemma fetchApprovals_success:
  assumes "\<not> invalidAddress (address (ui w))"
    and "fetchApprovals_try env (address (ui w)) (setApprovals [] (setLoading True w)) = (Inr u, w')"
  shows "\<exists>response txs.
           axios_get env (etherscan_url (ETHERSCAN_KEY env) (address (ui w))) = Inr response \<and>
           res_status response = Some ''1'' \<and> res_result response = ResultArray txs \<and>
           fetchApprovals env w =
             w\<lparr>ui := (ui w)\<lparr>approvals := map formatApproval (filter (isApprovalTx (address (ui w))) txs),
                           loading := False\<rparr>,
               log := log w @ [SetLoading True, SetApprovals [],
                      HttpGet (etherscan_url (ETHERSCAN_KEY env) (address (ui w))),
                      SetApprovals (map formatApproval (filter (isApprovalTx (address (ui w))) txs)),
                      SetLoading False]\<rparr>"
  using assms(1) fetchApprovals_try_Inr [OF assms(2)] assms(2)
  by (auto simp add: fetchApprovals_def Let_def world_defs)

lemma fetchApprovals_valid_log:
  assumes "\<not> invalidAddress (address (ui w))"
  shows "\<exists>rest. log (fetchApprovals env w) = log w @ SetLoading True # rest"
proof (cases "fetchApprovals_try env (address (ui w)) (setApprovals [] (setLoading True w))")
  case (Pair r w')
  show ?thesis
  proof (cases r)
    case (Inl e)
    with Pair fetchApprovals_failure [OF assms, of env e w'] show ?thesis by simp
  next
    case (Inr u)
    with Pair fetchApprovals_success [OF assms, of env u w'] show ?thesis by auto
  qed
qed

section \<open>Address validation accepts exactly the pattern\<close>

text \<open>
  Claim C2. For every input string, the address validation in \<^verbatim>\<open>fetchApprovals\<close> accepts
  the string (the operation goes on past the alert of the validation step) if and only if
  the string matches the regular expression \<^verbatim>\<open>^0x[a-fA-F0-9]{40}$\<close>: it is in the
  language of the pattern, which is \<^verbatim>\<open>0x\<close> followed by exactly 40 hexadecimal digits.
\<close>

theorem address_validation_regex:
  "(fetchApprovals env w \<noteq> alert ''Please enter a valid Ethereum address (0x...)'' w
      \<longleftrightarrow> address (ui w) \<in> lang address_pattern)
   \<and> (\<not> invalidAddress s \<longleftrightarrow> s \<in> lang address_pattern)
   \<and> (s \<in> lang address_pattern
        \<longleftrightarrow> (\<exists>h. s = ''0x'' @ h \<and> length h = 40 \<and> (\<forall>c\<in>set h. isHexDigit c)))"
proof (intro conjI)
  show "fetchApprovals env w \<noteq> alert ''Please enter a valid Ethereum address (0x...)'' w
      \<longleftrightarrow> address (ui w) \<in> lang address_pattern"
  proof
    assume "address (ui w) \<in> lang address_pattern"
    then have valid: "\<not> invalidAddress (address (ui w))"
      by (simp add: invalidAddress_lang)
    from fetchApprovals_valid_log [OF valid, of env]
    obtain rest where "log (fetchApprovals env w) = log w @ SetLoading True # rest" ..
    moreover have "log (alert ''Please enter a valid Ethereum address (0x...)'' w)
                     = log w @ [Alert ''Please enter a valid Ethereum address (0x...)'']"
      by (simp add: world_defs)
    ultimately show "fetchApprovals env w \<noteq> alert ''Please enter a valid Ethereum address (0x...)'' w"
      by auto
  next
    assume "fetchApprovals env w \<noteq> alert ''Please enter a valid Ethereum address (0x...)'' w"
    then show "address (ui w) \<in> lang address_pattern"
      using fetchApprovals_invalid [of w env] invalidAddress_lang by blast
  qed
  show "\<not> invalidAddress s \<longleftrightarrow> s \<in> lang address_pattern"
    by (simp add: invalidAddress_lang)
  show "s \<in> lang address_pattern
        \<longleftrightarrow> (\<exists>h. s = ''0x'' @ h \<and> length h = 40 \<and> (\<forall>c\<in>set h. isHexDigit c))"
    by (simp add: lang_address_pattern)
qed

theorem address_validation_regex_witness:
  "\<not> invalidAddress ex_addr_upper \<and> invalidAddress ''0x123''
   \<and> fetchApprovals ex_env ex_world_typo
        = alert ''Please enter a valid Ethereum address (0x...)'' ex_world_typo"
proof -
  have "\<exists>h. ex_addr_upper = ''0x'' @ h \<and> length h = 40 \<and> (\<forall>c\<in>set h. isHexDigit c)"
    by (rule exI [of _ "''AAAAAAAAAAAAAAAAAAAAAAAAAAAAAAAAAAAAAAAA''"])
      (simp add: ex_addr_upper_def isHexDigit_def)
  then have a: "\<not> invalidAddress ex_addr_upper"
    using address_validation_regex [of ex_env ex_world ex_addr_upper] by blast
  have "\<not> (\<exists>h. ''0x123'' = ''0x'' @ h \<and> length h = 40 \<and> (\<forall>c\<in>set h. isHexDigit c))"
    by auto
  then have b: "invalidAddress ''0x123''"
    using address_validation_regex [of ex_env ex_world "''0x123''"] by blast
  have "address (ui ex_world_typo) = ''0x123''"
    by (simp add: ex_world_typo_def world_defs initial_world_def)
  with b have c: "fetchApprovals ex_env ex_world_typo
        = alert ''Please enter a valid Ethereum address (0x...)'' ex_world_typo"
    using address_validation_regex [of ex_env ex_world_typo "''0x123''"] by metis
  from a b c show ?thesis by blast
qed

lemma fetchApprovals_ok:
  assumes "\<not> invalidAddress (address (ui w))"
    and "axios_get env (etherscan_url (ETHERSCAN_KEY env) (address (ui w))) = Inr response"
    and "res_status response = Some ''1''" and "res_result response = ResultArray txs"
  shows "fetchApprovals env w =
           w\<lparr>ui := (ui w)\<lparr>approvals := map formatApproval (filter (isApprovalTx (address (ui w))) txs),
                         loading := False\<rparr>,
             log := log w @ [SetLoading True, SetApprovals [],
                    HttpGet (etherscan_url (ETHERSCAN_KEY env) (address (ui w))),
                    SetApprovals (map formatApproval (filter (isApprovalTx (address (ui w))) txs)),
                    SetLoading False]\<rparr>"
  using assms
  by (simp add: fetchApprovals_def Let_def world_defs
      fetchApprovals_try_success [unfolded world_defs])

lemma ex_world_valid: "\<not> invalidAddress (address (ui ex_world))"
  by code_simp

lemma ex_world_typo_invalid: "invalidAddress (address (ui ex_world_typo))"
  by code_simp

lemma ex_world_listed_eval:
  "ui ex_world_listed =
     \<lparr>address = ex_addr_lower,
      approvals = [formatApproval ex_tx_approve, formatApproval ex_tx_mint],
      loading = False, isWalletConnected = False, currentChain = None\<rparr>"
  by code_simp

section \<open>An invalid address stops the fetch\<close>

text \<open>
  Claim C6. When the input string fails address validation, \<^verbatim>\<open>fetchApprovals\<close> shows an
  alert and aborts: the alert is the only thing it does, it issues no HTTP request, and
  the component state (address, approvals list, loading flag, wallet flags) is unchanged.
\<close>

theorem fetch_invalid_address_aborts:
  "invalidAddress (address (ui w)) \<Longrightarrow>
     log (fetchApprovals env w) = log w @ [Alert ''Please enter a valid Ethereum address (0x...)'']
     \<and> http_gets (log (fetchApprovals env w)) = http_gets (log w)
     \<and> ui (fetchApprovals env w) = ui w"
  by (simp add: fetchApprovals_invalid world_defs http_gets_append)

theorem fetch_invalid_address_aborts_witness:
  "invalidAddress (address (ui ex_world_typo))
   \<and> log (fetchApprovals ex_env ex_world_typo) =
       [SetAddress ''0x123'', Alert ''Please enter a valid Ethereum address (0x...)'']
   \<and> http_gets (log (fetchApprovals ex_env ex_world_typo)) = []
   \<and> approvals (ui (fetchApprovals ex_env ex_world_typo)) = []
   \<and> loading (ui (fetchApprovals ex_env ex_world_typo)) = False"
  using fetch_invalid_address_aborts [OF ex_world_typo_invalid, of ex_env] ex_world_typo_invalid
  by (simp add: ex_world_typo_def initial_world_def initial_state_def world_defs)

section \<open>A valid address makes one request\<close>

text \<open>
  Claim C7. For every valid address, \<^verbatim>\<open>fetchApprovals\<close> issues exactly one HTTP GET, to
  the block-explorer API, with the query parameters \<^verbatim>\<open>module=account\<close>,
  \<^verbatim>\<open>action=tokentx\<close>, the queried address, \<^verbatim>\<open>page=1\<close>, the fixed page size
  \<^verbatim>\<open>offset=100\<close> and the API key of the environment (rendered by the template literal).
\<close>

theorem fetch_issues_one_get:
  "\<not> invalidAddress (address (ui w)) \<Longrightarrow>
     http_gets (log (fetchApprovals env w)) =
       http_gets (log w) @
         [''https://api.etherscan.io/api?module=account&action=tokentx&address=''
            @ address (ui w) @ ''&page=1&offset=100&apikey='' @ interpolate (ETHERSCAN_KEY env)]"
proof -
  assume valid: "\<not> invalidAddress (address (ui w))"
  obtain r w' where body:
    "fetchApprovals_try env (address (ui w)) (setApprovals [] (setLoading True w)) = (r, w')"
    by (cases "fetchApprovals_try env (address (ui w)) (setApprovals [] (setLoading True w))")
  show ?thesis
  proof (cases r)
    case (Inl e)
    with body fetchApprovals_failure [OF valid, of env e w'] show ?thesis
      by (simp add: http_gets_append etherscan_url_def)
  next
    case (Inr u)
    with body fetchApprovals_success [OF valid, of env u w'] show ?thesis
      by (auto simp add: http_gets_append etherscan_url_def)
  qed
qed

theorem fetch_issues_one_get_witness:
  "\<not> invalidAddress (address (ui ex_world))
   \<and> http_gets (log (fetchApprovals ex_env ex_world)) =
     [''https://api.etherscan.io/api?module=account&action=tokentx&address=0xaaaaaaaaaaaaaaaaaaaaaaaaaaaaaaaaaaaaaaaa&page=1&offset=100&apikey=KEY'']"
  using fetch_issues_one_get [OF ex_world_valid, of ex_env] ex_world_valid
  by (simp add: ex_world_def ex_env_def ex_addr_lower_def initial_world_def world_defs
      interpolate_def)

section \<open>The approval filter\<close>

lemma includes_str_sublist: "includes_str s p \<longleftrightarrow> sublist p s"
  by (induction s) (auto simp: sublist_Cons_right)

lemma isApprovalTx_nocase: "isApprovalTx addr tx \<longleftrightarrow> approval_filter_nocase addr tx"
  by (auto simp: isApprovalTx_def approval_filter_nocase_def looks_like_approval_def Let_def
      truthy_def startsWith_def includes_str_sublist split: option.splits)

lemma ex_env_response:
  "axios_get ex_env u = Inr ex_response" "res_status ex_response = Some ''1''"
  "res_result ex_response = ResultArray [ex_tx_approve, ex_tx_transfer, ex_tx_mint]"
  by (simp_all add: ex_env_def ex_response_def)

text \<open>
  Claim C1. For every transaction record, the approval filter returns true if and only if
  the record's input starts with the selector \<^verbatim>\<open>0x095ea7b3\<close>, or its function name
  contains \<^verbatim>\<open>approve\<close> case-insensitively, or its \<^verbatim>\<open>from\<close> field is the zero address,
  and its \<^verbatim>\<open>to\<close> address differs from the queried address (it is absent, or another
  address: the two are compared up to the case of their letters, so a transfer to the
  queried address itself is excluded however it is spelled). After a successful fetch the
  approvals list holds the formatted records that satisfy this conjunction, and no
  others.
\<close>

theorem approval_filter_compares_lowercase:
  "(isApprovalTx addr tx \<longleftrightarrow> approval_filter_nocase addr tx)
   \<and> (\<not> invalidAddress (address (ui w))
        \<and> axios_get env (etherscan_url (ETHERSCAN_KEY env) (address (ui w))) = Inr response
        \<and> res_status response = Some ''1'' \<and> res_result response = ResultArray txs
      \<longrightarrow> approvals (ui (fetchApprovals env w)) =
            map formatApproval (filter (approval_filter_nocase (address (ui w))) txs))"
proof (intro conjI impI)
  show "isApprovalTx addr tx \<longleftrightarrow> approval_filter_nocase addr tx"
    by (rule isApprovalTx_nocase)
next
  assume h: "\<not> invalidAddress (address (ui w))
        \<and> axios_get env (etherscan_url (ETHERSCAN_KEY env) (address (ui w))) = Inr response
        \<and> res_status response = Some ''1'' \<and> res_result response = ResultArray txs"
  have "isApprovalTx (address (ui w)) = approval_filter_nocase (address (ui w))"
    by (rule ext) (rule isApprovalTx_nocase)
  with h show "approvals (ui (fetchApprovals env w)) =
            map formatApproval (filter (approval_filter_nocase (address (ui w))) txs)"
    using fetchApprovals_ok [of w env response txs] by simp
qed

theorem approval_filter_compares_lowercase_witness:
  "approvals (ui (fetchApprovals ex_env ex_world)) =
     [formatApproval ex_tx_approve, formatApproval ex_tx_mint]
   \<and> approval_filter_nocase ex_addr_lower ex_tx_approve
   \<and> \<not> approval_filter_nocase ex_addr_lower ex_tx_transfer
   \<and> approval_filter_nocase ex_addr_lower ex_tx_mint
   \<and> \<not> isApprovalTx ex_addr_upper ex_tx_self"
proof -
  have a: "address (ui ex_world) = ex_addr_lower"
    by (simp add: ex_world_def world_defs)
  have f: "approval_filter_nocase ex_addr_lower ex_tx_approve"
    "\<not> approval_filter_nocase ex_addr_lower ex_tx_transfer"
    "approval_filter_nocase ex_addr_lower ex_tx_mint"
    "\<not> approval_filter_nocase ex_addr_upper ex_tx_self"
    by code_simp+
  from approval_filter_compares_lowercase
    [of ex_addr_upper ex_tx_self ex_world ex_env ex_response
        "[ex_tx_approve, ex_tx_transfer, ex_tx_mint]"]
  show ?thesis
    using ex_world_valid ex_env_response f by (simp add: a)
qed

section \<open>The list keeps the order of the API\<close>

lemma filter_take_nth:
  assumes "i < length xs" and "P (xs ! i)"
  shows "length (filter P (take i xs)) < length (filter P xs)"
    and "filter P xs ! length (filter P (take i xs)) = xs ! i"
proof -
  have "xs = take i xs @ xs ! i # drop (Suc i) xs"
    using assms(1) by (simp add: id_take_nth_drop)
  then have "filter P xs = filter P (take i xs) @ filter P (xs ! i # drop (Suc i) xs)"
    by (metis filter_append)
  then have eq: "filter P xs = filter P (take i xs) @ xs ! i # filter P (drop (Suc i) xs)"
    using assms(2) by simp
  have "length (filter P xs)
          = length (filter P (take i xs) @ xs ! i # filter P (drop (Suc i) xs))"
    using eq by simp
  then show "length (filter P (take i xs)) < length (filter P xs)"
    by simp
  show "filter P xs ! length (filter P (take i xs)) = xs ! i"
    by (subst eq) (simp only: nth_append_length)
qed

lemma filter_take_mono:
  assumes "i < j" and "j \<le> length xs" and "P (xs ! i)"
  shows "length (filter P (take i xs)) < length (filter P (take j xs))"
proof -
  have "i < length (take j xs)" using assms by simp
  moreover have "P (take j xs ! i)" using assms by simp
  ultimately have "length (filter P (take i (take j xs))) < length (filter P (take j xs))"
    by (rule filter_take_nth(1))
  moreover have "take i (take j xs) = take i xs" using assms(1) by (simp add: min_def)
  ultimately show ?thesis by simp
qed

text \<open>
  Claim C8. The approvals list produced by \<^verbatim>\<open>fetchApprovals\<close> preserves the relative
  order of the records in the array the API returned: for any two records that both pass
  the approval filter, at indices \<open>i < j\<close> of that array, the formatted entries are in the
  approvals list, the entry of the record at \<open>i\<close> before the entry of the record at \<open>j\<close>.
\<close>

theorem approvals_keep_api_order:
  assumes "\<not> invalidAddress (address (ui w))"
    and "axios_get env (etherscan_url (ETHERSCAN_KEY env) (address (ui w))) = Inr response"
    and "res_status response = Some ''1''" and "res_result response = ResultArray txs"
    and "i < j" and "j < length txs"
    and "isApprovalTx (address (ui w)) (txs ! i)" and "isApprovalTx (address (ui w)) (txs ! j)"
  shows "approval_index (address (ui w)) txs i < approval_index (address (ui w)) txs j
     \<and> approval_index (address (ui w)) txs j < length (approvals (ui (fetchApprovals env w)))
     \<and> approvals (ui (fetchApprovals env w)) ! approval_index (address (ui w)) txs i
         = formatApproval (txs ! i)
     \<and> approvals (ui (fetchApprovals env w)) ! approval_index (address (ui w)) txs j
         = formatApproval (txs ! j)"
proof -
  let ?P = "isApprovalTx (address (ui w))"
  have out: "approvals (ui (fetchApprovals env w)) = map formatApproval (filter ?P txs)"
    using fetchApprovals_ok [OF assms(1-4)] by simp
  have i: "i < length txs" using assms(5,6) by simp
  note pi = filter_take_nth [of i txs ?P, OF i assms(7)]
  note pj = filter_take_nth [of j txs ?P, OF assms(6) assms(8)]
  have "approval_index (address (ui w)) txs i < approval_index (address (ui w)) txs j"
    unfolding approval_index_def using assms(5,6,7) by (intro filter_take_mono) simp_all
  moreover have "approval_index (address (ui w)) txs j < length (approvals (ui (fetchApprovals env w)))"
    unfolding approval_index_def out using pj(1) by simp
  moreover have "approvals (ui (fetchApprovals env w)) ! approval_index (address (ui w)) txs i
         = formatApproval (txs ! i)"
    unfolding approval_index_def out using pi by simp
  moreover have "approvals (ui (fetchApprovals env w)) ! approval_index (address (ui w)) txs j
         = formatApproval (txs ! j)"
    unfolding approval_index_def out using pj by simp
  ultimately show ?thesis by blast
qed

theorem approvals_keep_api_order_witness:
  "approval_index ex_addr_lower [ex_tx_approve, ex_tx_transfer, ex_tx_mint] 0 = 0
   \<and> approval_index ex_addr_lower [ex_tx_approve, ex_tx_transfer, ex_tx_mint] 2 = 1
   \<and> approvals (ui (fetchApprovals ex_env ex_world)) ! 0 = formatApproval ex_tx_approve
   \<and> approvals (ui (fetchApprovals ex_env ex_world)) ! 1 = formatApproval ex_tx_mint"
proof -
  have a: "address (ui ex_world) = ex_addr_lower"
    by (simp add: ex_world_def world_defs)
  have f: "isApprovalTx ex_addr_lower ex_tx_approve"
    "\<not> isApprovalTx ex_addr_lower ex_tx_transfer"
    "isApprovalTx ex_addr_lower ex_tx_mint"
    by code_simp+
  have p: "approval_index ex_addr_lower [ex_tx_approve, ex_tx_transfer, ex_tx_mint] 0 = 0"
    "approval_index ex_addr_lower [ex_tx_approve, ex_tx_transfer, ex_tx_mint] 2 = 1"
    using f by (simp_all add: approval_index_def numeral_2_eq_2)
  from approvals_keep_api_order
    [of ex_world ex_env ex_response "[ex_tx_approve, ex_tx_transfer, ex_tx_mint]" 0 2]
  show ?thesis
    using ex_world_valid ex_env_response f p by (simp add: a)
qed

section \<open>Token symbols are never empty\<close>

lemma or_else_nonempty: "d \<noteq> [] \<Longrightarrow> or_else x d \<noteq> []"
  by (simp add: or_else_def split: option.splits)

lemma formatApproval_symbol: "tokenSymbol (formatApproval tx) \<noteq> []"
  by (simp add: formatApproval_def or_else_nonempty)

lemma reachable_inv_symbols: "reachable w \<Longrightarrow> inv_symbols w"
proof (induction rule: reachable.induct)
  case r_init
  show ?case by (simp add: inv_symbols_def initial_world_def initial_state_def)
next
  case (r_reload w chainId)
  show ?case by (simp add: inv_symbols_def chainChanged_def initial_state_def world_defs)
next
  case (r_listed w addr txs)
  show ?case by (simp add: inv_symbols_def world_defs formatApproval_symbol)
qed (simp_all add: inv_symbols_def world_defs)

text \<open>Every operation of the page, run from start to end, stays within these worlds.\<close>

lemma reachable_alert: "reachable w \<Longrightarrow> reachable (alert m w)"
  unfolding alert_def by (rule r_effect)

lemma reachable_console_error: "reachable w \<Longrightarrow> reachable (console_error l e w)"
  unfolding console_error_def by (rule r_effect)

lemmas reachable_steps = reachable.intros reachable_alert reachable_console_error

lemma reachable_checkWalletConnection:
  "reachable w \<Longrightarrow> reachable (checkWalletConnection env w)"
  unfolding checkWalletConnection_def checkWalletConnection_try_def Let_def
  by (auto split: sum.splits intro!: reachable_steps)

lemma reachable_connectWallet: "reachable w \<Longrightarrow> reachable (connectWallet env w)"
  unfolding connectWallet_def connectWallet_try_def Let_def
  by (auto split: sum.splits intro!: reachable_steps)

lemma reachable_accountsChanged: "reachable w \<Longrightarrow> reachable (accountsChanged accounts w)"
  unfolding accountsChanged_def by (rule r_connected)

lemma reachable_fetchApprovals_try:
  "reachable w \<Longrightarrow> reachable (snd (fetchApprovals_try env addr w))"
  unfolding fetchApprovals_try_def Let_def
  by (auto split: sum.splits api_result.splits intro!: reachable_steps)

lemma reachable_fetchApprovals: "reachable w \<Longrightarrow> reachable (fetchApprovals env w)"
proof -
  assume r: "reachable w"
  have "reachable (snd (fetchApprovals_try env (address (ui w)) (setApprovals [] (setLoading True w))))"
    using r by (intro reachable_fetchApprovals_try reachable_steps)
  then show ?thesis
    unfolding fetchApprovals_def Let_def using r
    by (auto split: prod.splits sum.splits intro!: reachable_steps)
qed

lemma reachable_revokeApproval_try:
  "reachable w \<Longrightarrow> reachable (snd (revokeApproval_try env ap w))"
  unfolding revokeApproval_try_def Let_def
  by (auto split: sum.splits intro!: reachable_steps reachable_fetchApprovals)

lemma reachable_revokeApproval: "reachable w \<Longrightarrow> reachable (revokeApproval env ap w)"
proof -
  assume "reachable w"
  then have "reachable (snd (revokeApproval_try env ap w))"
    by (rule reachable_revokeApproval_try)
  then show ?thesis
    unfolding revokeApproval_def
    by (auto split: prod.splits sum.splits intro!: reachable_steps)
qed

text \<open>
  Claim C9. Every formatted approval record stored in the approvals list has a non-empty
  token symbol: formatting never yields an empty symbol, an absent or empty
  \<^verbatim>\<open>tokenSymbol\<close> of the API record becomes \<^verbatim>\<open>Unknown\<close>, and so every entry of the
  approvals list of every world the component can reach, however its operations overlap,
  has a non-empty symbol.
\<close>

theorem token_symbol_never_empty:
  "tokenSymbol (formatApproval tx) \<noteq> []
   \<and> (tx_tokenSymbol tx = None \<or> tx_tokenSymbol tx = Some []
        \<longrightarrow> tokenSymbol (formatApproval tx) = ''Unknown'')
   \<and> (reachable w \<longrightarrow> (\<forall>a\<in>set (approvals (ui w)). tokenSymbol a \<noteq> []))"
proof (intro conjI impI)
  show "tokenSymbol (formatApproval tx) \<noteq> []"
    by (rule formatApproval_symbol)
next
  assume "tx_tokenSymbol tx = None \<or> tx_tokenSymbol tx = Some []"
  then show "tokenSymbol (formatApproval tx) = ''Unknown''"
    by (auto simp: formatApproval_def or_else_def)
next
  assume "reachable w"
  then have "inv_symbols w" by (rule reachable_inv_symbols)
  then show "\<forall>a\<in>set (approvals (ui w)). tokenSymbol a \<noteq> []"
    by (simp add: inv_symbols_def)
qed

theorem token_symbol_never_empty_witness:
  "reachable ex_world_listed
   \<and> tx_tokenSymbol ex_tx_mint = Some []
   \<and> formatApproval ex_tx_mint \<in> set (approvals (ui ex_world_listed))
   \<and> tokenSymbol (formatApproval ex_tx_mint) = ''Unknown''
   \<and> [] \<notin> set (map tokenSymbol (approvals (ui ex_world_listed)))"
proof -
  have r: "reachable ex_world_listed"
    unfolding ex_world_listed_def ex_world_def
    by (intro reachable_fetchApprovals r_typing r_init)
  have m: "tx_tokenSymbol ex_tx_mint = Some []"
    by (simp add: ex_tx_mint_def ex_tx_blank_def)
  from token_symbol_never_empty [of ex_tx_mint ex_world_listed] r m
  show ?thesis
    by (auto simp add: ex_world_listed_eval)
qed

section \<open>Revoking\<close>

lemma fetchApprovals_log_extends:
  "\<exists>tail. log (fetchApprovals env w) = log w @ tail \<and> filter isTransaction tail = []"
proof (cases "invalidAddress (address (ui w))")
  case True
  then show ?thesis by (simp add: fetchApprovals_invalid world_defs)
next
  case False
  obtain r w' where body:
    "fetchApprovals_try env (address (ui w)) (setApprovals [] (setLoading True w)) = (r, w')"
    by (cases "fetchApprovals_try env (address (ui w)) (setApprovals [] (setLoading True w))")
  show ?thesis
  proof (cases r)
    case (Inl e)
    with body fetchApprovals_failure [OF False, of env e w'] show ?thesis by simp
  next
    case (Inr u)
    with body fetchApprovals_success [OF False, of env u w'] show ?thesis by auto
  qed
qed

lemma ex_approval_fields:
  "contractAddress ex_approval = Some ex_token" "ap_to ex_approval = Some ex_spender"
  by (simp_all add: ex_approval_def formatApproval_def ex_tx_approve_def ex_tx_blank_def)

text \<open>
  Claim C4. Whenever the wallet is disconnected (\<^verbatim>\<open>isWalletConnected\<close> is false),
  \<^verbatim>\<open>revokeApproval\<close> raises an error before it constructs the provider and the
  contract binding: the \<^verbatim>\<open>try\<close> block throws in the world it started in. The operation
  logs the error and shows the alert, and does nothing else: no allowance read, no
  transaction, no change of the component state.
\<close>

theorem revoke_blocked_when_disconnected:
  "\<not> isWalletConnected (ui w) \<Longrightarrow>
     revokeApproval_try env ap w =
       (Inl (Error (if ethereum env then ''Please connect your wallet first''
                    else ''MetaMask not installed'')), w)
     \<and> log (revokeApproval env ap w) =
         log w @
           (if ethereum env
            then [ConsoleError ''Revoke failed:'' (Error ''Please connect your wallet first''),
                  Alert ''Revoke failed: Please connect your wallet first'']
            else [ConsoleError ''Revoke failed:'' (Error ''MetaMask not installed''),
                  Alert ''Revoke failed: MetaMask not installed''])
     \<and> filter isChainCall (log (revokeApproval env ap w)) = filter isChainCall (log w)
     \<and> ui (revokeApproval env ap w) = ui w"
  by (simp add: revokeApproval_def revokeApproval_try_def world_defs)

theorem revoke_blocked_when_disconnected_witness:
  "\<not> isWalletConnected (ui ex_world_listed)
   \<and> ex_approval \<in> set (approvals (ui ex_world_listed))
   \<and> log (revokeApproval ex_env ex_approval ex_world_listed) =
       log ex_world_listed @
         [ConsoleError ''Revoke failed:'' (Error ''Please connect your wallet first''),
          Alert ''Revoke failed: Please connect your wallet first'']
   \<and> filter isChainCall (log (revokeApproval ex_env ex_approval ex_world_listed)) = []"
proof -
  have d: "\<not> isWalletConnected (ui ex_world_listed)"
    by (simp add: ex_world_listed_eval)
  have l: "filter isChainCall (log ex_world_listed) = []"
    by code_simp
  from revoke_blocked_when_disconnected [OF d, of ex_env ex_approval] d l
  show ?thesis
    by (simp add: ex_world_listed_eval ex_approval_def ex_env_def)
qed

text \<open>
  Claim C3, as stated: for every approval record, \<^verbatim>\<open>revokeApproval\<close> first reads the
  allowance, and if the allowance is nonzero it submits one \<^verbatim>\<open>approve(spender, 0)\<close> and
  waits for its confirmation. With the wallet connected and an allowance of 1000 on
  chain, each step on the way can still fail, and the \<^verbatim>\<open>catch\<close> block then ends the
  operation:
    \<^item> the wallet gives no signer address (line 143): no allowance is read;
    \<^item> the contract binding cannot be built for a listed record that has no contract
      address (line 132): no allowance is read;
    \<^item> the provider constructor refuses the injected object (line 129): no allowance is
      read;
    \<^item> the user rejects the transaction in the wallet (line 152): the one \<^verbatim>\<open>approve\<close>
      is submitted, and nothing waits for a confirmation.
\<close>

theorem revoke_reads_allowance_counterexample:
  "isWalletConnected (ui ex_world_listed_connected)
   \<and> ex_approval \<in> set (approvals (ui ex_world_listed_connected))
   \<and> filter isAllowanceRead
         (log (revokeApproval ex_env_no_signer ex_approval ex_world_listed_connected)) = []
   \<and> isWalletConnected (ui ex_world_bare_connected)
   \<and> ex_approval_bare \<in> set (approvals (ui ex_world_bare_connected))
   \<and> filter isAllowanceRead
         (log (revokeApproval ex_env_strict ex_approval_bare ex_world_bare_connected)) = []
   \<and> filter isAllowanceRead
         (log (revokeApproval ex_env_no_provider ex_approval ex_world_listed_connected)) = []
   \<and> allowance ex_env_rejected (contractAddress ex_approval) ex_addr_lower (ap_to ex_approval)
         = Inr 1000
   \<and> filter isTransaction
         (log (revokeApproval ex_env_rejected ex_approval ex_world_listed_connected))
         = [CallApprove (Some ex_token) (Some ex_spender) 0]
   \<and> filter isConfirmationWait
         (log (revokeApproval ex_env_rejected ex_approval ex_world_listed_connected)) = []"
  by code_simp

text \<open>
  Claim C3, amended. For every approval record, when \<^verbatim>\<open>revokeApproval\<close> runs with the
  wallet connected, as its only caller, the Revoke button, has it (lines 232 to 242), and
  the provider and the contract binding are built and the signer's address is obtained,
  it first reads the on-chain \<^verbatim>\<open>allowance(owner, spender)\<close>. If the allowance is zero it
  raises the error \<^verbatim>\<open>No active approval found\<close>, which is logged and shown, and submits
  no transaction. If the allowance is nonzero it submits exactly one transaction,
  \<^verbatim>\<open>approve(spender, 0)\<close>, directly after the read, and once the submission has
  returned a transaction it waits for its confirmation.
\<close>

theorem revoke_reads_allowance_first:
  assumes "ethereum env" and "isWalletConnected (ui w)"
    and "new_Web3Provider env = Inr ()"
    and "new_Contract env (contractAddress ap) = Inr ()"
    and "getAddress env = Inr owner"
    and "allowance env (contractAddress ap) owner (ap_to ap) = Inr n"
  shows "\<exists>rest. log (revokeApproval env ap w) =
           log w @ [NewWeb3Provider, GetSigner, NewContract (contractAddress ap), GetAddress,
                    CallAllowance (contractAddress ap) owner (ap_to ap)] @ rest
         \<and> (n = 0 \<longrightarrow>
               revokeApproval_try env ap w
                 = (Inl (Error ''No active approval found''),
                    w\<lparr>log := log w @ [NewWeb3Provider, GetSigner,
                          NewContract (contractAddress ap), GetAddress,
                          CallAllowance (contractAddress ap) owner (ap_to ap)]\<rparr>)
               \<and> rest = [ConsoleError ''Revoke failed:'' (Error ''No active approval found''),
                          Alert ''Revoke failed: No active approval found''])
         \<and> (n \<noteq> 0 \<longrightarrow>
               filter isTransaction rest = [CallApprove (contractAddress ap) (ap_to ap) 0]
               \<and> (\<forall>h. approve env (contractAddress ap) (ap_to ap) 0 = Inr h \<longrightarrow>
                     (\<exists>rest'. rest = CallApprove (contractAddress ap) (ap_to ap) 0
                                       # TxWait h # rest')))"
proof (cases "n = 0")
  case True
  with assms show ?thesis
    by (simp add: revokeApproval_def revokeApproval_try_def world_defs)
next
  case False
  show ?thesis
  proof (cases "approve env (contractAddress ap) (ap_to ap) 0")
    case (Inl e)
    with False assms show ?thesis
      by (simp add: revokeApproval_def revokeApproval_try_def world_defs)
  next
    case (Inr h)
    note h = Inr
    show ?thesis
    proof (cases "tx_wait env h")
      case (Inl e)
      with h False assms show ?thesis
        by (simp add: revokeApproval_def revokeApproval_try_def world_defs)
    next
      case (Inr u)
      let ?pre = "log w @ [NewWeb3Provider, GetSigner, NewContract (contractAddress ap),
                    GetAddress, CallAllowance (contractAddress ap) owner (ap_to ap)]"
      let ?w8 = "w\<lparr>log := ?pre @ [CallApprove (contractAddress ap) (ap_to ap) 0, TxWait h,
                    Alert (''Success! Approval revoked in transaction: '' @ h)]\<rparr>"
      have eq: "revokeApproval env ap w = fetchApprovals env ?w8"
        using Inr h False assms
        by (simp add: revokeApproval_def revokeApproval_try_def world_defs)
      obtain tail where tail: "log (fetchApprovals env ?w8) = log ?w8 @ tail"
        "filter isTransaction tail = []"
        using fetchApprovals_log_extends [of env ?w8] by blast
      let ?rest = "[CallApprove (contractAddress ap) (ap_to ap) 0, TxWait h,
                    Alert (''Success! Approval revoked in transaction: '' @ h)] @ tail"
      have "log (revokeApproval env ap w) = ?pre @ ?rest"
        using eq tail(1) by simp
      moreover have "filter isTransaction ?rest = [CallApprove (contractAddress ap) (ap_to ap) 0]"
        using tail(2) by simp
      moreover have "\<exists>rest'. ?rest = CallApprove (contractAddress ap) (ap_to ap) 0
                                       # TxWait h # rest'"
        by simp
      ultimately show ?thesis
        using False h by (intro exI [of _ ?rest]) simp
    qed
  qed
qed

theorem revoke_reads_allowance_first_witness:
  "log (revokeApproval ex_env_zero ex_approval ex_world_listed_connected) =
     log ex_world_listed_connected @
       [NewWeb3Provider, GetSigner, NewContract (Some ex_token), GetAddress,
        CallAllowance (Some ex_token) ex_addr_lower (Some ex_spender),
        ConsoleError ''Revoke failed:'' (Error ''No active approval found''),
        Alert ''Revoke failed: No active approval found'']
   \<and> filter isTransaction (log (revokeApproval ex_env ex_approval ex_world_listed_connected)) =
       [CallApprove (Some ex_token) (Some ex_spender) 0]"
proof -
  have c: "isWalletConnected (ui ex_world_listed_connected)"
    by code_simp
  have quiet: "filter isTransaction (log ex_world_listed_connected) = []"
    by code_simp
  have z: "ethereum ex_env_zero" "new_Web3Provider ex_env_zero = Inr ()"
    "new_Contract ex_env_zero (contractAddress ex_approval) = Inr ()"
    "getAddress ex_env_zero = Inr ex_addr_lower"
    "allowance ex_env_zero (contractAddress ex_approval) ex_addr_lower (ap_to ex_approval) = Inr 0"
    by (simp_all add: ex_env_zero_def ex_env_def)
  have p: "ethereum ex_env" "new_Web3Provider ex_env = Inr ()"
    "new_Contract ex_env (contractAddress ex_approval) = Inr ()"
    "getAddress ex_env = Inr ex_addr_lower"
    "allowance ex_env (contractAddress ex_approval) ex_addr_lower (ap_to ex_approval) = Inr 1000"
    by (simp_all add: ex_env_def)
  from revoke_reads_allowance_first [OF z(1) c z(2-5)]
  have first: "log (revokeApproval ex_env_zero ex_approval ex_world_listed_connected) =
     log ex_world_listed_connected @
       [NewWeb3Provider, GetSigner, NewContract (Some ex_token), GetAddress,
        CallAllowance (Some ex_token) ex_addr_lower (Some ex_spender),
        ConsoleError ''Revoke failed:'' (Error ''No active approval found''),
        Alert ''Revoke failed: No active approval found'']"
    by (auto simp: ex_approval_fields)
  from revoke_reads_allowance_first [OF p(1) c p(2-5)]
  obtain rest where
    "log (revokeApproval ex_env ex_approval ex_world_listed_connected) =
       log ex_world_listed_connected @
         [NewWeb3Provider, GetSigner, NewContract (contractAddress ex_approval), GetAddress,
          CallAllowance (contractAddress ex_approval) ex_addr_lower (ap_to ex_approval)] @ rest"
    "filter isTransaction rest = [CallApprove (contractAddress ex_approval) (ap_to ex_approval) 0]"
    by auto
  then have "filter isTransaction (log (revokeApproval ex_env ex_approval ex_world_listed_connected)) =
       [CallApprove (Some ex_token) (Some ex_spender) 0]"
    using quiet by (simp add: ex_approval_fields)
  with first show ?thesis by blast
qed

section \<open>Failures and alerts\<close>

lemma connectWallet_try_alerts:
  "connectWallet_try env w = (r, w') \<Longrightarrow> alerts (log w') = alerts (log w)"
  by (auto simp: connectWallet_try_def Let_def world_defs alerts_append
      split: if_splits sum.splits)

lemma checkWalletConnection_try_alerts:
  "checkWalletConnection_try env w = (r, w') \<Longrightarrow> alerts (log w') = alerts (log w)"
  by (auto simp: checkWalletConnection_try_def Let_def world_defs alerts_append
      split: if_splits sum.splits)

lemma revokeApproval_try_Inl_alerts:
  "revokeApproval_try env ap w = (Inl e, w') \<Longrightarrow> alerts (log w') = alerts (log w)"
  unfolding revokeApproval_try_def Let_def
  by (auto simp: world_defs alerts_append split: if_splits sum.splits)

text \<open>
  Claim C5, as stated: every failure path of the program ends in a blocking alert with the
  error's message. The wallet check that runs when the component is mounted
  (\<^verbatim>\<open>checkWalletConnection\<close>, lines 23 to 25) only logs the error to the console: when
  the provider rejects \<^verbatim>\<open>eth_accounts\<close>, the operation completes without any alert.
\<close>

theorem check_failure_without_alert_counterexample:
  "ethereum ex_env_down
   \<and> fst (checkWalletConnection_try ex_env_down initial_world) = Inl (Error ''provider unavailable'')
   \<and> log (checkWalletConnection ex_env_down initial_world) =
       [EthRequest ''eth_accounts'',
        ConsoleError ''Wallet connection check failed:'' (Error ''provider unavailable'')]
   \<and> alerts (log (checkWalletConnection ex_env_down initial_world)) = []"
  by code_simp

text \<open>
  Claim C5, amended. Every failure path of the three user actions surfaces the failure as
  exactly one blocking alert: when the \<^verbatim>\<open>try\<close> block of \<^verbatim>\<open>connectWallet\<close>,
  \<^verbatim>\<open>fetchApprovals\<close> or \<^verbatim>\<open>revokeApproval\<close> throws an error, the alert holds the
  operation's prefix followed by the error's message text, and when address validation
  fails the alert holds a fixed text. A failure of the wallet check on mount is logged to
  the console and shows no alert.
\<close>

theorem failures_of_user_actions_alert:
  "(\<forall>e w'. connectWallet_try env w = (Inl e, w') \<longrightarrow>
       alerts (log (connectWallet env w))
         = alerts (log w) @ [''Wallet connection failed: '' @ message e])
   \<and> (invalidAddress (address (ui w)) \<longrightarrow>
       alerts (log (fetchApprovals env w))
         = alerts (log w) @ [''Please enter a valid Ethereum address (0x...)''])
   \<and> (\<forall>e w'. \<not> invalidAddress (address (ui w))
          \<and> fetchApprovals_try env (address (ui w)) (setApprovals [] (setLoading True w))
              = (Inl e, w') \<longrightarrow>
       alerts (log (fetchApprovals env w)) = alerts (log w) @ [''Error: '' @ message e])
   \<and> (\<forall>e w'. revokeApproval_try env ap w = (Inl e, w') \<longrightarrow>
       alerts (log (revokeApproval env ap w))
         = alerts (log w) @ [''Revoke failed: '' @ message e])
   \<and> (\<forall>e w'. ethereum env \<and> checkWalletConnection_try env w = (Inl e, w') \<longrightarrow>
       log (checkWalletConnection env w)
         = log w' @ [ConsoleError ''Wallet connection check failed:'' e]
       \<and> alerts (log (checkWalletConnection env w)) = alerts (log w))"
proof (intro conjI allI impI)
  fix e w' assume "connectWallet_try env w = (Inl e, w')"
  then show "alerts (log (connectWallet env w))
         = alerts (log w) @ [''Wallet connection failed: '' @ message e]"
    using connectWallet_try_alerts [of env w "Inl e" w']
    by (simp add: connectWallet_def world_defs alerts_append)
next
  assume "invalidAddress (address (ui w))"
  then show "alerts (log (fetchApprovals env w))
         = alerts (log w) @ [''Please enter a valid Ethereum address (0x...)'']"
    by (simp add: fetchApprovals_invalid world_defs alerts_append)
next
  fix e w' assume "\<not> invalidAddress (address (ui w))
          \<and> fetchApprovals_try env (address (ui w)) (setApprovals [] (setLoading True w))
              = (Inl e, w')"
  then show "alerts (log (fetchApprovals env w)) = alerts (log w) @ [''Error: '' @ message e]"
    using fetchApprovals_failure [of w env e w'] by (simp add: alerts_append)
next
  fix e w' assume "revokeApproval_try env ap w = (Inl e, w')"
  then show "alerts (log (revokeApproval env ap w))
         = alerts (log w) @ [''Revoke failed: '' @ message e]"
    using revokeApproval_try_Inl_alerts [of env ap w e w']
    by (simp add: revokeApproval_def world_defs alerts_append)
next
  fix e w' assume h: "ethereum env \<and> checkWalletConnection_try env w = (Inl e, w')"
  then show "log (checkWalletConnection env w)
         = log w' @ [ConsoleError ''Wallet connection check failed:'' e]"
    by (simp add: checkWalletConnection_def world_defs)
  from h show "alerts (log (checkWalletConnection env w)) = alerts (log w)"
    using checkWalletConnection_try_alerts [of env w "Inl e" w']
    by (simp add: checkWalletConnection_def world_defs alerts_append)
qed

theorem failures_of_user_actions_alert_witness:
  "alerts (log (connectWallet ex_env_down ex_world))
     = [''Wallet connection failed: User rejected the request.'']
   \<and> alerts (log (fetchApprovals ex_env_down ex_world)) = [''Error: Network Error'']
   \<and> alerts (log (fetchApprovals ex_env_down ex_world_typo))
       = [''Please enter a valid Ethereum address (0x...)'']
   \<and> alerts (log (revokeApproval ex_env_down ex_approval ex_world_connected))
       = [''Revoke failed: unsupported provider'']
   \<and> alerts (log (checkWalletConnection ex_env_down ex_world)) = []"
proof -
  have quiet: "alerts (log ex_world) = []" "alerts (log ex_world_typo) = []"
    "alerts (log ex_world_connected) = []"
    by (simp_all add: ex_world_def ex_world_typo_def ex_world_connected_def initial_world_def
        world_defs)
  have c: "connectWallet_try ex_env_down ex_world
             = (Inl (Error ''User rejected the request.''),
                emit (EthRequest ''eth_requestAccounts'') ex_world)"
    by (simp add: connectWallet_try_def ex_env_down_def)
  have f: "fetchApprovals_try ex_env_down (address (ui ex_world))
             (setApprovals [] (setLoading True ex_world))
           = (Inl (Error ''Network Error''),
              emit (HttpGet (etherscan_url (ETHERSCAN_KEY ex_env_down) (address (ui ex_world))))
                (setApprovals [] (setLoading True ex_world)))"
    by (simp add: fetchApprovals_try_def ex_env_down_def)
  have r: "revokeApproval_try ex_env_down ex_approval ex_world_connected
             = (Inl (Error ''unsupported provider''), emit NewWeb3Provider ex_world_connected)"
    by (simp add: revokeApproval_try_def ex_env_down_def ex_world_connected_def world_defs)
  have k: "checkWalletConnection_try ex_env_down ex_world
             = (Inl (Error ''provider unavailable''), emit (EthRequest ''eth_accounts'') ex_world)"
    by (simp add: checkWalletConnection_try_def ex_env_down_def)
  have e: "ethereum ex_env_down"
    by (simp add: ex_env_down_def)
  note on_world = failures_of_user_actions_alert [of ex_env_down ex_world ex_approval]
  note on_typo = failures_of_user_actions_alert [of ex_env_down ex_world_typo ex_approval]
  note on_connected = failures_of_user_actions_alert [of ex_env_down ex_world_connected ex_approval]
  from on_world c have "alerts (log (connectWallet ex_env_down ex_world))
     = [''Wallet connection failed: User rejected the request.'']"
    using quiet by simp
  moreover from on_world f ex_world_valid
  have "alerts (log (fetchApprovals ex_env_down ex_world)) = [''Error: Network Error'']"
    using quiet by simp
  moreover from on_typo ex_world_typo_invalid
  have "alerts (log (fetchApprovals ex_env_down ex_world_typo))
       = [''Please enter a valid Ethereum address (0x...)'']"
    using quiet by simp
  moreover from on_connected r
  have "alerts (log (revokeApproval ex_env_down ex_approval ex_world_connected))
       = [''Revoke failed: unsupported provider'']"
    using quiet by simp
  moreover from on_world k e
  have "alerts (log (checkWalletConnection ex_env_down ex_world)) = alerts (log ex_world)"
    by blast
  then have "alerts (log (checkWalletConnection ex_env_down ex_world)) = []"
    using quiet by simp
  ultimately show ?thesis by blast
qed

section \<open>The list is cleared before the request\<close>

text \<open>
  Claim C10. For a valid address (so that a request is made), \<^verbatim>\<open>fetchApprovals\<close> raises
  the loading flag and clears the approvals list before it issues the HTTP request: in
  the world in which the \<^verbatim>\<open>try\<close> block starts the flag is true and the list is empty,
  the request is the first thing the block does and the only request, and the flag is
  still true when the block ends. The \<^verbatim>\<open>catch\<close> block only logs and alerts, and the
  \<^verbatim>\<open>finally\<close> block lowers the flag, so the loading flag is false when the operation is
  over, whether it succeeded or failed. When the request fails, when the API reports an
  error, or when the result cannot be filtered, the approvals list ends up empty
  whatever it held before.
\<close>

theorem fetch_clears_before_request:
  "\<not> invalidAddress (address (ui w)) \<Longrightarrow>
     (let url = etherscan_url (ETHERSCAN_KEY env) (address (ui w));
          w2 = setApprovals [] (setLoading True w);
          r = fst (fetchApprovals_try env (address (ui w)) w2);
          w3 = snd (fetchApprovals_try env (address (ui w)) w2)
      in loading (ui w2) = True \<and> approvals (ui w2) = []
         \<and> log w2 = log w @ [SetLoading True, SetApprovals []]
         \<and> (\<exists>rest. log w3 = log w2 @ HttpGet url # rest \<and> http_gets rest = [])
         \<and> loading (ui w3) = True
         \<and> log (fetchApprovals env w) =
               log w3 @ (case r of
                           Inl e \<Rightarrow> [ConsoleError ''Fetch error:'' e,
                                     Alert (''Error: '' @ message e)]
                         | Inr u \<Rightarrow> [])
                      @ [SetLoading False]
         \<and> ui (fetchApprovals env w) = (ui w3)\<lparr>loading := False\<rparr>
         \<and> loading (ui (fetchApprovals env w)) = False
         \<and> (\<forall>e. axios_get env url = Inl e \<longrightarrow> approvals (ui (fetchApprovals env w)) = [])
         \<and> (\<forall>a. axios_get env url = Inr a
                  \<and> (res_status a \<noteq> Some ''1'' \<or> (\<exists>e. res_result a = ResultOther e))
                \<longrightarrow> approvals (ui (fetchApprovals env w)) = []))"
proof -
  assume valid: "\<not> invalidAddress (address (ui w))"
  obtain r w' where body:
    "fetchApprovals_try env (address (ui w)) (setApprovals [] (setLoading True w)) = (r, w')"
    by (cases "fetchApprovals_try env (address (ui w)) (setApprovals [] (setLoading True w))")
  show ?thesis
  proof (cases r)
    case (Inl e)
    note w' = fetchApprovals_try_Inl [OF body [unfolded Inl]]
    from Inl body fetchApprovals_failure [OF valid, of env e w'] show ?thesis
      by (simp add: Let_def w' world_defs)
  next
    case (Inr u)
    from fetchApprovals_try_Inr [OF body [unfolded Inr]]
    obtain response txs where ok:
      "axios_get env (etherscan_url (ETHERSCAN_KEY env) (address (ui w))) = Inr response"
      "res_status response = Some ''1''" "res_result response = ResultArray txs"
      and w': "w' = setApprovals (map formatApproval (filter (isApprovalTx (address (ui w))) txs))
                  (emit (HttpGet (etherscan_url (ETHERSCAN_KEY env) (address (ui w))))
                     (setApprovals [] (setLoading True w)))"
      by blast
    from Inr body ok fetchApprovals_ok [OF valid ok] show ?thesis
      by (simp add: Let_def w' world_defs)
  qed
qed

theorem fetch_clears_before_request_witness:
  "\<not> invalidAddress (address (ui ex_world_listed))
   \<and> approvals (ui ex_world_listed) = [formatApproval ex_tx_approve, formatApproval ex_tx_mint]
   \<and> loading (ui (setApprovals [] (setLoading True ex_world_listed))) = True
   \<and> approvals (ui (setApprovals [] (setLoading True ex_world_listed))) = []
   \<and> approvals (ui (fetchApprovals ex_env_down ex_world_listed)) = []
   \<and> loading (ui (fetchApprovals ex_env_down ex_world_listed)) = False
   \<and> loading (ui (fetchApprovals ex_env ex_world_listed)) = False"
proof -
  have v: "\<not> invalidAddress (address (ui ex_world_listed))"
    by (simp add: ex_world_listed_eval) code_simp
  have down: "axios_get ex_env_down u = Inl (Error ''Network Error'')" for u
    by (simp add: ex_env_down_def)
  from fetch_clears_before_request [OF v, of ex_env_down] down
  have "loading (ui (setApprovals [] (setLoading True ex_world_listed))) = True"
    and "approvals (ui (setApprovals [] (setLoading True ex_world_listed))) = []"
    and "approvals (ui (fetchApprovals ex_env_down ex_world_listed)) = []"
    and "loading (ui (fetchApprovals ex_env_down ex_world_listed)) = False"
    unfolding Let_def by blast+
  moreover from fetch_clears_before_request [OF v, of ex_env]
  have "loading (ui (fetchApprovals ex_env ex_world_listed)) = False"
    unfolding Let_def by blast
  ultimately show ?thesis
    using v by (simp add: ex_world_listed_eval)
qed

end
